theory Spec2Isabelle
  imports Main
begin

section \<open>Data shared by the reporter and the Kubernetes adapter\<close>

text \<open>
  Modelled from the spec: the application spec class, which is not among the source
  files. It is the object that the reporter's handlers and the adapter receive. The
  reporter reads only \<open>deployment_id\<close>; the adapter tests read \<open>name\<close> and
  \<open>version\<close>; the end-to-end test sets \<open>image\<close>. The other fields are those of the
  spec's data model that the deployment deriver needs. The field \<open>image\<close> is called
  \<open>image_ref\<close> here, and the user-supplied labels \<open>user_labels\<close>.
\<close>

record app_spec =
  name :: string
  image_ref :: string
  version :: string
  deployment_id :: string
  replicas :: nat
  ports :: "nat list"
  user_labels :: "(string \<times> string) list"

text \<open>
  Modelled from the spec: the configuration class, which is not among the source files.
  These are the two attributes that \<open>Reporter.__init__\<close> reads.
\<close>

record config =
  cfg_environment :: string
  cfg_infrastructure :: string

section \<open>The outbound HTTP session\<close>

text \<open>
  One call \<open>session.post(url, json=body)\<close>. The session belongs to the HTTP library, so
  what the remote end does with a request is a parameter of the model: a function that
  says, for each request, whether the call returns (\<open>None\<close>) or raises (\<open>Some e\<close>).
  The list of requests records every call made on the session, in order, whether it
  returned or raised.
\<close>

record request =
  req_url :: string
  req_json :: "(string \<times> string) list"

datatype error = RequestException string

type_synonym transport = "request \<Rightarrow> error option"

definition session_post ::
  "transport \<Rightarrow> string \<Rightarrow> (string \<times> string) list \<Rightarrow> request list
     \<Rightarrow> (error + unit) \<times> request list" where
  "session_post net url body calls =
     (let req = \<lparr>req_url = url, req_json = body\<rparr>
      in (case net req of None \<Rightarrow> Inr () | Some e \<Rightarrow> Inl e, calls @ [req]))"

text \<open>A transport on which every post returns, and one on which every post raises.\<close>

definition net_ok :: transport where
  "net_ok req = None"

definition net_down :: transport where
  "net_down req = Some (RequestException ''connection refused'')"

section \<open>The standard library's path join\<close>

text \<open>
  \<open>posixpath.join(a, *p)\<close> of Python's standard library, which the reporter calls: a
  component that starts with a slash replaces the path built so far; otherwise it is
  appended, with a slash in between unless the path is empty or already ends with one.
\<close>

definition startswith :: "string \<Rightarrow> string \<Rightarrow> bool" where
  "startswith s p = (take (length p) s = p)"

definition endswith :: "string \<Rightarrow> string \<Rightarrow> bool" where
  "endswith s p = (length p \<le> length s \<and> drop (length s - length p) s = p)"

definition join_component :: "string \<Rightarrow> string \<Rightarrow> string" where
  "join_component path b =
     (if startswith b ''/'' then b
      else if path = [] \<or> endswith path ''/'' then path @ b
      else path @ ''/'' @ b)"

definition posixpath_join :: "string \<Rightarrow> string list \<Rightarrow> string" where
  "posixpath_join a p = foldl join_component a p"

section \<open>The reporter\<close>

text \<open>
  The fields of a \<open>Reporter\<close> object. \<open>session\<close> holds the calls made so far on
  \<open>self._session\<close>; \<open>callback_urls\<close> is the dictionary \<open>self._callback_urls\<close>.
\<close>

record reporter =
  environment :: string
  infrastructure :: string
  session :: "request list"
  callback_urls :: "string \<rightharpoonup> string"

definition Reporter :: "config \<Rightarrow> request list \<Rightarrow> reporter" where
  "Reporter cfg sess =
     \<lparr>environment = cfg_environment cfg,
      infrastructure = cfg_infrastructure cfg,
      session = sess,
      callback_urls = Map.empty\<rparr>"

definition register :: "reporter \<Rightarrow> string \<Rightarrow> string \<Rightarrow> reporter" where
  "register r d url = r\<lparr>callback_urls := (callback_urls r)(d \<mapsto> url)\<rparr>"

text \<open>
  \<open>_handle_signal\<close>. The test \<open>if base_url:\<close> fails both when \<open>get\<close> returns \<open>None\<close> (no
  entry) and when the entry is the empty string. The result pairs what the caller sees
  (\<open>Inr ()\<close> for a normal return, \<open>Inl e\<close> for an exception leaving the method) with the
  reporter afterwards. The method has no \<open>try\<close>, so an exception of the post leaves it.
\<close>

definition handle_signal ::
  "transport \<Rightarrow> reporter \<Rightarrow> string \<Rightarrow> app_spec \<Rightarrow> string \<Rightarrow> (error + unit) \<times> reporter" where
  "handle_signal net r event_name a status =
     (case callback_urls r (deployment_id a) of
        None \<Rightarrow> (Inr (), r)
      | Some base_url \<Rightarrow>
          if base_url = [] then (Inr (), r)
          else
            (let task_name =
                   ''fiaas_'' @ environment r @ ''-'' @ infrastructure r @ ''_'' @ event_name;
                 url = posixpath_join base_url [task_name, status];
                 (res, calls) =
                   session_post net url
                     [(''description'', ''From fiaas-deploy-daemon'')] (session r)
             in (res, r\<lparr>session := calls\<rparr>)))"

definition handle_started :: "transport \<Rightarrow> reporter \<Rightarrow> app_spec \<Rightarrow> (error + unit) \<times> reporter" where
  "handle_started net r a = handle_signal net r ''deploy_started'' a ''success''"

definition handle_success :: "transport \<Rightarrow> reporter \<Rightarrow> app_spec \<Rightarrow> (error + unit) \<times> reporter" where
  "handle_success net r a = handle_signal net r ''deploy_end'' a ''success''"

definition handle_failure :: "transport \<Rightarrow> reporter \<Rightarrow> app_spec \<Rightarrow> (error + unit) \<times> reporter" where
  "handle_failure net r a = handle_signal net r ''deploy_end'' a ''failure''"

text \<open>
  The three signals that \<open>__init__\<close> connects, and the handler each one is connected to.
\<close>

datatype lifecycle_signal = Deploy_started | Deploy_success | Deploy_failed

fun receiver ::
  "transport \<Rightarrow> reporter \<Rightarrow> lifecycle_signal \<Rightarrow> app_spec \<Rightarrow> (error + unit) \<times> reporter" where
  "receiver net r Deploy_started a = handle_started net r a"
| "receiver net r Deploy_success a = handle_success net r a"
| "receiver net r Deploy_failed a = handle_failure net r a"

section \<open>Identity metadata and the adapter's deploy\<close>

text \<open>
  Modelled from the spec: \<open>_make_selector\<close> of \<open>deployer/kubernetes/adapter.py\<close>, which
  is not among the source files; only its test \<open>test_make_selector\<close> is. The spec gives
  the selector as \<open>{app: name}\<close>, and the test asserts the same dictionary.
\<close>

definition make_selector :: "app_spec \<Rightarrow> (string \<rightharpoonup> string)" where
  "make_selector a = [''app'' \<mapsto> name a]"

text \<open>
  Modelled from the spec: \<open>K8s._make_labels\<close> of \<open>deployer/kubernetes/adapter.py\<close>, which
  is not among the source files; only its test \<open>test_make_labels\<close> is. The spec gives the
  label set as \<open>{app: name, fiaas/version: AppSpec.version, fiaas/deployed_by:
  controllerVersion, fiaas/deployment_id: deploymentId, ...user-labels}\<close>. It does not say
  which entry stands when a user label has one of the four fixed keys; the test reads the
  fixed keys back as the spec's values, so the fixed entries are written last here. The
  first argument is \<open>config.version\<close>, the controller's version.
\<close>

definition make_labels :: "string \<Rightarrow> app_spec \<Rightarrow> (string \<rightharpoonup> string)" where
  "make_labels fiaas_version a =
     map_of (user_labels a) ++
       [''app'' \<mapsto> name a,
        ''fiaas/version'' \<mapsto> version a,
        ''fiaas/deployed_by'' \<mapsto> fiaas_version,
        ''fiaas/deployment_id'' \<mapsto> deployment_id a]"

text \<open>
  A call on one of the collaborators that the adapter's tests replace by mocks, with its
  arguments: \<open>deployment_deployer.deploy(app_spec, selector, labels)\<close>,
  \<open>deploy_service(app_spec, selector, labels)\<close> and
  \<open>ingress_deployer.deploy(app_spec, labels)\<close>.
\<close>

datatype deployer_call =
    Deployment_deploy app_spec "string \<rightharpoonup> string" "string \<rightharpoonup> string"
  | Service_deploy app_spec "string \<rightharpoonup> string" "string \<rightharpoonup> string"
  | Ingress_deploy app_spec "string \<rightharpoonup> string"

text \<open>
  Modelled from the spec: \<open>K8s.deploy\<close> of \<open>deployer/kubernetes/adapter.py\<close>, which is not
  among the source files; only the tests \<open>test_pass_to_deployment\<close>, \<open>test_pass_to_ingress\<close>
  and \<open>test_pass_to_service\<close> are. The spec's reconciler computes the identity metadata
  first and then hands it to each deriver; the result here is the list of calls made on
  the collaborators, with the arguments of each call. The autoscaler is left out: no test
  among the source files observes a call to it.
\<close>

definition K8s_deploy :: "string \<Rightarrow> app_spec \<Rightarrow> deployer_call list" where
  "K8s_deploy fiaas_version a =
     (let selector = make_selector a;
          labels = make_labels fiaas_version a
      in [Deployment_deploy a selector labels,
          Service_deploy a selector labels,
          Ingress_deploy a labels])"

section \<open>The image tag and the deployment's environment\<close>

text \<open>
  \<open>image.split(":")[-1]\<close> of \<open>_set_env\<close> and \<open>_set_labels\<close> in the end-to-end test:
  \<open>str.split\<close> with a one-character separator never returns an empty list, so the index
  \<open>-1\<close> never raises.
\<close>

fun str_split :: "char \<Rightarrow> string \<Rightarrow> string list" where
  "str_split sep [] = [[]]"
| "str_split sep (c # cs) =
     (if c = sep then [] # str_split sep cs
      else (case str_split sep cs of
              [] \<Rightarrow> [[c]]
            | w # ws \<Rightarrow> (c # w) # ws))"

definition image_tag :: "string \<Rightarrow> string" where
  "image_tag img = last (str_split CHR '':'' img)"

text \<open>
  \<open>_set_env\<close> of the end-to-end test, on the list of environment entries of the first
  container of an expected deployment: every entry named \<open>VERSION\<close> gets the image's
  tag, every entry named \<open>IMAGE\<close> the image, and the others are kept.
\<close>

definition set_env_item :: "string \<Rightarrow> string \<times> string \<Rightarrow> string \<times> string" where
  "set_env_item img item =
     (let item1 = (if fst item = ''VERSION'' then (fst item, image_tag img) else item);
          item2 = (if fst item1 = ''IMAGE'' then (fst item1, img) else item1)
      in item2)"

definition set_env :: "(string \<times> string) list \<Rightarrow> string \<Rightarrow> (string \<times> string) list" where
  "set_env env img = map (set_env_item img) env"

text \<open>
  The parts of a Deployment object that the end-to-end test reads back:
  \<open>dep.spec.template.spec.containers[0].image\<close>, the container's \<open>env\<close> list of name and
  value entries, and the labels of the object and of its pod template.
\<close>

record container =
  c_image :: string
  c_env :: "(string \<times> string) list"
  c_ports :: "nat list"

record deployment =
  d_name :: string
  d_labels :: "string \<rightharpoonup> string"
  d_selector :: "string \<rightharpoonup> string"
  d_replicas :: nat
  d_template_labels :: "string \<rightharpoonup> string"
  d_containers :: "container list"

text \<open>
  Modelled from the spec: the deployment deriver (\<open>DeploymentDeployer\<close> of
  \<open>deployer/kubernetes/deployment.py\<close>), which is not among the source files; only the
  end-to-end test that reads the deployed object back is. The spec's words: the derived
  Deployment has the container image, the replica count, the port list, and environment
  variables including at least \<open>VERSION\<close> (image tag) and \<open>IMAGE\<close> (full reference),
  and its pod template inherits the identity metadata's labels. The variables the spec
  does not name are the parameter \<open>other_env\<close>.
\<close>

definition derive_deployment ::
  "(string \<times> string) list \<Rightarrow> app_spec \<Rightarrow> (string \<rightharpoonup> string) \<Rightarrow> (string \<rightharpoonup> string)
     \<Rightarrow> deployment" where
  "derive_deployment other_env a selector labels =
     \<lparr>d_name = name a,
      d_labels = labels,
      d_selector = selector,
      d_replicas = replicas a,
      d_template_labels = labels,
      d_containers =
        [\<lparr>c_image = image_ref a,
          c_env = [(''VERSION'', image_tag (image_ref a)), (''IMAGE'', image_ref a)] @ other_env,
          c_ports = ports a\<rparr>]\<rparr>"

text \<open>
  Values used in the examples. The deployment id, the image and the environment are those
  of the end-to-end test; the infrastructure and the callback URL are arbitrary.
\<close>

definition example_config :: config where
  "example_config = \<lparr>cfg_environment = ''test'', cfg_infrastructure = ''gke''\<rparr>"

definition example_reporter :: reporter where
  "example_reporter =
     register (Reporter example_config []) ''deployment_id_1'' ''http://pipeline.example.com/cb''"

definition example_spec :: app_spec where
  "example_spec =
     \<lparr>name = ''v2minimal'', image_ref = ''finntech/application-name:123'',
      version = ''123'', deployment_id = ''deployment_id_1'', replicas = 2,
      ports = [8080], user_labels = []\<rparr>"

section \<open>Properties of the path join\<close>

lemma startswith_slash: "startswith s ''/'' = (s \<noteq> [] \<and> hd s = CHR ''/'')"
  by (cases s) (simp_all add: startswith_def)

lemma endswith_slash: "endswith s ''/'' = (s \<noteq> [] \<and> last s = CHR ''/'')"
proof (cases s rule: rev_cases)
  case Nil
  then show ?thesis by (simp add: endswith_def)
next
  case (snoc ys y)
  then show ?thesis by (simp add: endswith_def)
qed

lemma join_task_status:
  assumes "base \<noteq> []" and "ev \<noteq> []" and "last ev \<noteq> CHR ''/''"
    and "st \<noteq> []" and "hd st \<noteq> CHR ''/''"
  shows "posixpath_join base [''fiaas_'' @ env @ ''-'' @ infra @ ''_'' @ ev, st] =
           (if last base = CHR ''/'' then base else base @ ''/'') @
             ''fiaas_'' @ env @ ''-'' @ infra @ ''_'' @ ev @ ''/'' @ st"
  using assms
  by (simp add: posixpath_join_def join_component_def startswith_slash endswith_slash)

section \<open>The reporter's handlers\<close>

lemma handle_signal_unregistered:
  "callback_urls r (deployment_id a) = None \<Longrightarrow> handle_signal net r ev a st = (Inr (), r)"
  by (simp add: handle_signal_def)

lemma handle_signal_empty_url:
  "callback_urls r (deployment_id a) = Some [] \<Longrightarrow> handle_signal net r ev a st = (Inr (), r)"
  by (simp add: handle_signal_def)

lemma handle_signal_registered:
  assumes "callback_urls r (deployment_id a) = Some base_url" and "base_url \<noteq> []"
  shows "handle_signal net r ev a st =
           (case net \<lparr>req_url = posixpath_join base_url
                                 [''fiaas_'' @ environment r @ ''-'' @ infrastructure r @ ''_'' @ ev, st],
                       req_json = [(''description'', ''From fiaas-deploy-daemon'')]\<rparr> of
              None \<Rightarrow> Inr () | Some e \<Rightarrow> Inl e,
            r\<lparr>session := session r @
                 [\<lparr>req_url = posixpath_join base_url
                               [''fiaas_'' @ environment r @ ''-'' @ infrastructure r @ ''_'' @ ev, st],
                   req_json = [(''description'', ''From fiaas-deploy-daemon'')]\<rparr>]\<rparr>)"
  using assms by (simp add: handle_signal_def session_post_def Let_def)

lemma receiver_handle_signal:
  "receiver net r sig a =
     handle_signal net r
       (case sig of Deploy_started \<Rightarrow> ''deploy_started''
                  | Deploy_success \<Rightarrow> ''deploy_end''
                  | Deploy_failed \<Rightarrow> ''deploy_end'') a
       (case sig of Deploy_started \<Rightarrow> ''success''
                  | Deploy_success \<Rightarrow> ''success''
                  | Deploy_failed \<Rightarrow> ''failure'')"
  by (cases sig) (simp_all add: handle_started_def handle_success_def handle_failure_def)

text \<open>
  Claim C1, as amended. When the callback dictionary holds a non-empty URL for the
  deployment id of the application spec, handling a started event makes exactly one post
  on the session: the calls on the session grow by one request, whose URL is
  \<open>posixpath.join\<close> of the registered URL, the task name
  \<open>fiaas_<environment>-<infrastructure>_deploy_started\<close> and \<open>success\<close>, and whose JSON
  body is \<open>{"description": "From fiaas-deploy-daemon"}\<close>. The join puts a slash after
  the registered URL unless it already ends with one. (For a registered empty URL no post
  is made: see the counterexample below and claim C10.)
\<close>

theorem started_posts_one_notification:
  assumes "callback_urls r (deployment_id a) = Some base_url" and "base_url \<noteq> []"
  shows "session (snd (handle_started net r a)) =
           session r @
             [\<lparr>req_url = posixpath_join base_url
                           [''fiaas_'' @ environment r @ ''-'' @ infrastructure r @ ''_deploy_started'',
                            ''success''],
               req_json = [(''description'', ''From fiaas-deploy-daemon'')]\<rparr>]
         \<and> posixpath_join base_url
              [''fiaas_'' @ environment r @ ''-'' @ infrastructure r @ ''_deploy_started'', ''success''] =
             (if last base_url = CHR ''/'' then base_url else base_url @ ''/'') @
               ''fiaas_'' @ environment r @ ''-'' @ infrastructure r @ ''_deploy_started/success''"
proof
  show "session (snd (handle_started net r a)) =
           session r @
             [\<lparr>req_url = posixpath_join base_url
                           [''fiaas_'' @ environment r @ ''-'' @ infrastructure r @ ''_deploy_started'',
                            ''success''],
               req_json = [(''description'', ''From fiaas-deploy-daemon'')]\<rparr>]"
    unfolding handle_started_def
    by (simp add: handle_signal_registered [OF assms])
next
  have "posixpath_join base_url
          [''fiaas_'' @ environment r @ ''-'' @ infrastructure r @ ''_'' @ ''deploy_started'', ''success''] =
        (if last base_url = CHR ''/'' then base_url else base_url @ ''/'') @
          ''fiaas_'' @ environment r @ ''-'' @ infrastructure r @ ''_'' @ ''deploy_started'' @ ''/'' @ ''success''"
    by (rule join_task_status) (simp_all add: assms)
  then show "posixpath_join base_url
              [''fiaas_'' @ environment r @ ''-'' @ infrastructure r @ ''_deploy_started'', ''success''] =
             (if last base_url = CHR ''/'' then base_url else base_url @ ''/'') @
               ''fiaas_'' @ environment r @ ''-'' @ infrastructure r @ ''_deploy_started/success''"
    by simp
qed

lemma example_reporter_lookup:
  "callback_urls example_reporter (deployment_id example_spec) = Some ''http://pipeline.example.com/cb''"
  by (simp add: example_reporter_def example_spec_def register_def)

theorem started_posts_one_notification_witness:
  "callback_urls example_reporter (deployment_id example_spec) = Some ''http://pipeline.example.com/cb''
   \<and> session (snd (handle_started net_ok example_reporter example_spec)) =
       [\<lparr>req_url = ''http://pipeline.example.com/cb/fiaas_test-gke_deploy_started/success'',
         req_json = [(''description'', ''From fiaas-deploy-daemon'')]\<rparr>]"
  using started_posts_one_notification
          [of example_reporter example_spec "''http://pipeline.example.com/cb''" net_ok]
        example_reporter_lookup
  by (simp add: example_reporter_def example_config_def Reporter_def register_def)

theorem started_empty_url_counterexample:
  "callback_urls (register (Reporter example_config []) ''deployment_id_1'' [])
       (deployment_id example_spec) = Some []
   \<and> session (snd (handle_started net_ok
                     (register (Reporter example_config []) ''deployment_id_1'' []) example_spec)) = []"
  by (simp add: handle_started_def handle_signal_def register_def Reporter_def example_spec_def)


text \<open>
  Claim C2, as amended. The reporter does not catch a failure of the post: for every
  signal, when the handler has made a post and the transport raises the error \<open>e\<close> on
  that request, the handler ends with the same error \<open>e\<close>, which reaches whoever called
  the handler. The callback dictionary is as before.
\<close>

theorem post_failure_leaves_handler:
  assumes "session (snd (receiver net r sig a)) = session r @ [req]"
    and "net req = Some e"
  shows "fst (receiver net r sig a) = Inl e \<and> callback_urls (snd (receiver net r sig a)) = callback_urls r"
proof (cases "callback_urls r (deployment_id a)")
  case None
  with assms(1) show ?thesis
    by (simp add: receiver_handle_signal handle_signal_unregistered)
next
  case (Some base_url)
  show ?thesis
  proof (cases "base_url = []")
    case True
    with Some assms(1) show ?thesis
      by (simp add: receiver_handle_signal handle_signal_empty_url)
  next
    case False
    with Some assms show ?thesis
      by (simp add: receiver_handle_signal handle_signal_registered)
  qed
qed

theorem post_failure_leaves_handler_witness:
  "session (snd (receiver net_down example_reporter Deploy_started example_spec)) =
     session example_reporter @
       [\<lparr>req_url = ''http://pipeline.example.com/cb/fiaas_test-gke_deploy_started/success'',
         req_json = [(''description'', ''From fiaas-deploy-daemon'')]\<rparr>]
   \<and> net_down \<lparr>req_url = ''http://pipeline.example.com/cb/fiaas_test-gke_deploy_started/success'',
                req_json = [(''description'', ''From fiaas-deploy-daemon'')]\<rparr> =
       Some (RequestException ''connection refused'')
   \<and> fst (receiver net_down example_reporter Deploy_started example_spec) =
       Inl (RequestException ''connection refused'')"
proof -
  have s: "session (snd (receiver net_down example_reporter Deploy_started example_spec)) =
     session example_reporter @
       [\<lparr>req_url = ''http://pipeline.example.com/cb/fiaas_test-gke_deploy_started/success'',
         req_json = [(''description'', ''From fiaas-deploy-daemon'')]\<rparr>]"
    by (simp add: handle_started_def handle_signal_def session_post_def Let_def example_reporter_def
        example_config_def example_spec_def Reporter_def register_def posixpath_join_def
        join_component_def startswith_def endswith_def)
  have n: "net_down \<lparr>req_url = ''http://pipeline.example.com/cb/fiaas_test-gke_deploy_started/success'',
                req_json = [(''description'', ''From fiaas-deploy-daemon'')]\<rparr> =
       Some (RequestException ''connection refused'')"
    by (simp add: net_down_def)
  from post_failure_leaves_handler [OF s n] s n show ?thesis by simp
qed

theorem post_failure_counterexample:
  "fst (handle_started net_down example_reporter example_spec) =
     Inl (RequestException ''connection refused'')"
  by (simp add: handle_started_def handle_signal_def session_post_def Let_def example_reporter_def
      example_config_def example_spec_def Reporter_def register_def net_down_def)

text \<open>
  Claim C3, as amended. \<open>register(d, url2)\<close> stores \<open>url2\<close> for \<open>d\<close> whether or not \<open>d\<close>
  had an entry (the last registration stands); the entry of every other deployment id
  and the other fields of the reporter are unchanged.
\<close>

theorem register_overwrites:
  "callback_urls (register r d url2) d = Some url2
   \<and> (\<forall>d'. d' \<noteq> d \<longrightarrow> callback_urls (register r d url2) d' = callback_urls r d')
   \<and> environment (register r d url2) = environment r
   \<and> infrastructure (register r d url2) = infrastructure r
   \<and> session (register r d url2) = session r"
  by (simp add: register_def)

theorem register_overwrites_witness:
  "callback_urls (register example_reporter ''deployment_id_1'' ''http://other.example.com'')
       ''deployment_id_1'' = Some ''http://other.example.com''
   \<and> ''deployment_id_2'' \<noteq> ''deployment_id_1''
   \<and> callback_urls (register example_reporter ''deployment_id_1'' ''http://other.example.com'')
       ''deployment_id_2'' = callback_urls example_reporter ''deployment_id_2''"
  using register_overwrites [of example_reporter "''deployment_id_1''" "''http://other.example.com''"]
  by simp

theorem register_write_once_counterexample:
  "callback_urls example_reporter ''deployment_id_1'' = Some ''http://pipeline.example.com/cb''
   \<and> callback_urls (register example_reporter ''deployment_id_1'' ''http://other.example.com'')
       ''deployment_id_1'' = Some ''http://other.example.com''
   \<and> ''http://other.example.com'' \<noteq> ''http://pipeline.example.com/cb''"
  by (simp add: example_reporter_def register_def)

text \<open>
  Claim C4. When the callback dictionary has no entry for the deployment id of the
  application spec, handling a started, succeeded or failed event returns normally and
  leaves the reporter as it was: no call is made on the session, whatever the transport
  would have done.
\<close>

theorem unregistered_is_noop:
  assumes "callback_urls r (deployment_id a) = None"
  shows "receiver net r sig a = (Inr (), r)"
  using assms by (simp add: receiver_handle_signal handle_signal_unregistered)

theorem unregistered_is_noop_witness:
  "callback_urls (Reporter example_config []) (deployment_id example_spec) = None
   \<and> receiver net_down (Reporter example_config []) Deploy_started example_spec =
       (Inr (), Reporter example_config [])
   \<and> receiver net_down (Reporter example_config []) Deploy_success example_spec =
       (Inr (), Reporter example_config [])
   \<and> receiver net_down (Reporter example_config []) Deploy_failed example_spec =
       (Inr (), Reporter example_config [])"
proof -
  have h: "callback_urls (Reporter example_config []) (deployment_id example_spec) = None"
    by (simp add: Reporter_def)
  from unregistered_is_noop [OF h, of net_down Deploy_started]
       unregistered_is_noop [OF h, of net_down Deploy_success]
       unregistered_is_noop [OF h, of net_down Deploy_failed] h
  show ?thesis by (simp del: receiver.simps)
qed

text \<open>
  Claim C5. The started handler uses the event name \<open>deploy_started\<close> with the status
  \<open>success\<close>, the success handler \<open>deploy_end\<close> with \<open>success\<close>, and the failure handler
  \<open>deploy_end\<close> with \<open>failure\<close>. For every signal, the calls on the session afterwards
  are the calls before, followed, when a non-empty URL is registered, by one request
  whose URL ends with one of these three pairs of event name and status and no other.
\<close>

theorem event_names_and_statuses:
  "receiver net r Deploy_started a = handle_signal net r ''deploy_started'' a ''success''
   \<and> receiver net r Deploy_success a = handle_signal net r ''deploy_end'' a ''success''
   \<and> receiver net r Deploy_failed a = handle_signal net r ''deploy_end'' a ''failure''
   \<and> session (snd (receiver net r sig a)) =
       (case callback_urls r (deployment_id a) of
          None \<Rightarrow> session r
        | Some base_url \<Rightarrow>
            if base_url = [] then session r
            else session r @
              [\<lparr>req_url =
                  (if last base_url = CHR ''/'' then base_url else base_url @ ''/'') @
                  ''fiaas_'' @ environment r @ ''-'' @ infrastructure r @
                  (case sig of
                     Deploy_started \<Rightarrow> ''_deploy_started/success''
                   | Deploy_success \<Rightarrow> ''_deploy_end/success''
                   | Deploy_failed \<Rightarrow> ''_deploy_end/failure''),
                req_json = [(''description'', ''From fiaas-deploy-daemon'')]\<rparr>])"
proof (intro conjI)
  show "session (snd (receiver net r sig a)) =
       (case callback_urls r (deployment_id a) of
          None \<Rightarrow> session r
        | Some base_url \<Rightarrow>
            if base_url = [] then session r
            else session r @
              [\<lparr>req_url =
                  (if last base_url = CHR ''/'' then base_url else base_url @ ''/'') @
                  ''fiaas_'' @ environment r @ ''-'' @ infrastructure r @
                  (case sig of
                     Deploy_started \<Rightarrow> ''_deploy_started/success''
                   | Deploy_success \<Rightarrow> ''_deploy_end/success''
                   | Deploy_failed \<Rightarrow> ''_deploy_end/failure''),
                req_json = [(''description'', ''From fiaas-deploy-daemon'')]\<rparr>])"
  proof (cases "callback_urls r (deployment_id a)")
    case None
    then show ?thesis
      by (simp add: receiver_handle_signal handle_signal_unregistered)
  next
    case (Some base_url)
    show ?thesis
    proof (cases "base_url = []")
      case True
      with Some show ?thesis
        by (simp add: receiver_handle_signal handle_signal_empty_url)
    next
      case False
      with Some show ?thesis
        by (cases sig)
           (simp_all add: receiver_handle_signal handle_signal_registered posixpath_join_def
              join_component_def startswith_slash endswith_slash)
    qed
  qed
qed (simp_all add: handle_started_def handle_success_def handle_failure_def)

text \<open>
  Claim C9. Handling a started, succeeded or failed event leaves the callback dictionary
  as it was, whether the post returns, raises or is not made: every entry is still
  present with the same URL, and none is added or removed. The environment and the
  infrastructure fields are unchanged as well.
\<close>

theorem events_keep_registrations:
  "callback_urls (snd (receiver net r sig a)) = callback_urls r
   \<and> environment (snd (receiver net r sig a)) = environment r
   \<and> infrastructure (snd (receiver net r sig a)) = infrastructure r"
  by (simp add: receiver_handle_signal handle_signal_def session_post_def Let_def
      split: option.splits)

text \<open>
  Claim C10. After \<open>register(d, "")\<close>, handling any of the three events for an
  application spec with deployment id \<open>d\<close> returns normally and makes no call on the
  session: the reporter is left as the registration left it, and the registration itself
  made no call either. This is what the handlers do when \<open>d\<close> has no entry.
\<close>

theorem empty_url_is_no_registration:
  "receiver net (register r (deployment_id a) []) sig a = (Inr (), register r (deployment_id a) [])
   \<and> session (register r (deployment_id a) []) = session r"
  by (simp add: receiver_handle_signal handle_signal_empty_url register_def)


section \<open>Identity metadata\<close>

lemma make_labels_fixed:
  "make_labels v a ''app'' = Some (name a)"
  "make_labels v a ''fiaas/version'' = Some (version a)"
  "make_labels v a ''fiaas/deployed_by'' = Some v"
  "make_labels v a ''fiaas/deployment_id'' = Some (deployment_id a)"
  by (simp_all add: make_labels_def)

lemma make_labels_user:
  "k \<notin> {''app'', ''fiaas/version'', ''fiaas/deployed_by'', ''fiaas/deployment_id''} \<Longrightarrow>
     make_labels v a k = map_of (user_labels a) k"
  by (simp add: make_labels_def map_add_def)

lemma selector_le_labels: "map_le (make_selector a) (make_labels v a)"
  by (simp add: map_le_def make_selector_def make_labels_fixed)

lemma selector_neq_labels: "make_selector a \<noteq> make_labels v a"
proof
  assume "make_selector a = make_labels v a"
  then have "make_selector a ''fiaas/version'' = make_labels v a ''fiaas/version''"
    by simp
  then show False
    by (simp add: make_selector_def make_labels_fixed)
qed

text \<open>
  Claim C6. For every application spec the selector is exactly \<open>{app: name}\<close>, the label
  set agrees with the selector on every key of the selector (it is a superset), and the
  label set maps \<open>app\<close> to the name, \<open>fiaas/version\<close> to the spec's version and
  \<open>fiaas/deployed_by\<close> to the controller's version.
\<close>

theorem identity_metadata_selector_labels:
  "make_selector a = [''app'' \<mapsto> name a]
   \<and> dom (make_selector a) = {''app''}
   \<and> map_le (make_selector a) (make_labels v a)
   \<and> make_labels v a ''app'' = Some (name a)
   \<and> make_labels v a ''fiaas/version'' = Some (version a)
   \<and> make_labels v a ''fiaas/deployed_by'' = Some v"
  by (simp add: selector_le_labels make_labels_fixed) (simp add: make_selector_def)

text \<open>
  Claim C7. One call of the adapter's deploy invokes the deployment deployer with the
  spec, the selector and the labels, the service deployer with the spec, the selector and
  the labels, and the ingress deployer with the spec and the labels, where selector and
  labels are the identity metadata of that spec; the selector of every call that the
  service deployer receives is the identity metadata's selector, which is never equal to
  the label set.
\<close>

theorem deploy_passes_identity_metadata:
  "Deployment_deploy a (make_selector a) (make_labels v a) \<in> set (K8s_deploy v a)
   \<and> Service_deploy a (make_selector a) (make_labels v a) \<in> set (K8s_deploy v a)
   \<and> Ingress_deploy a (make_labels v a) \<in> set (K8s_deploy v a)
   \<and> (\<forall>b s l. Service_deploy b s l \<in> set (K8s_deploy v a) \<longrightarrow>
         s = make_selector a \<and> s \<noteq> make_labels v a)"
  by (simp add: K8s_deploy_def Let_def selector_neq_labels)

theorem deploy_passes_identity_metadata_witness:
  "Service_deploy example_spec [''app'' \<mapsto> ''v2minimal''] (make_labels ''1'' example_spec)
     \<in> set (K8s_deploy ''1'' example_spec)
   \<and> [''app'' \<mapsto> ''v2minimal''] = make_selector example_spec
   \<and> [''app'' \<mapsto> ''v2minimal''] \<noteq> make_labels ''1'' example_spec"
proof -
  have m: "Service_deploy example_spec [''app'' \<mapsto> ''v2minimal''] (make_labels ''1'' example_spec)
     \<in> set (K8s_deploy ''1'' example_spec)"
    by (simp add: K8s_deploy_def Let_def make_selector_def example_spec_def)
  from deploy_passes_identity_metadata [of example_spec "''1''"] m show ?thesis
    by blast
qed

section \<open>The image tag\<close>

lemma str_split_length: "length (str_split c s) = Suc (length (filter (\<lambda>x. x = c) s))"
  by (induction s) (auto split: list.splits)

lemma str_split_no_sep: "c \<notin> set s \<Longrightarrow> str_split c s = [s]"
  by (induction s) auto

lemma last_str_split_Cons:
  assumes "c \<in> set s"
  shows "last (str_split c (x # s)) = last (str_split c s)"
proof -
  from assms have "filter (\<lambda>x. x = c) s \<noteq> []"
    by (simp add: filter_empty_conv)
  then have "2 \<le> length (str_split c s)"
    by (cases "filter (\<lambda>x. x = c) s") (simp_all add: str_split_length)
  then obtain w w' ws where "str_split c s = w # w' # ws"
    by (cases "str_split c s" rule: list.exhaust; cases "tl (str_split c s)") auto
  then show ?thesis by simp
qed

lemma last_str_split_append:
  assumes "c \<notin> set tg"
  shows "last (str_split c (pre @ c # tg)) = tg"
proof (induction pre)
  case Nil
  from assms show ?case by (simp add: str_split_no_sep)
next
  case (Cons x pre)
  have "c \<in> set (pre @ c # tg)" by simp
  then have "last (str_split c (x # pre @ c # tg)) = last (str_split c (pre @ c # tg))"
    by (rule last_str_split_Cons)
  with Cons show ?case by simp
qed

lemma set_env_derived:
  "set_env [(''VERSION'', image_tag img), (''IMAGE'', img)] img =
     [(''VERSION'', image_tag img), (''IMAGE'', img)]"
  by (simp add: set_env_def set_env_item_def)

text \<open>
  Claim C8. The derived deployment has one container, whose image is the spec's image
  reference and whose environment contains \<open>VERSION\<close> with the image's tag and \<open>IMAGE\<close>
  with the full image reference. The tag is \<open>image.split(":")[-1]\<close>: whenever the image
  reference is \<open>repo:tag\<close> with no colon in \<open>tag\<close>, it is \<open>tag\<close>, the part after the last
  colon.
\<close>

theorem deployment_env_version_image:
  "(\<exists>c. d_containers (derive_deployment other_env a sel lab) = [c]
        \<and> c_image c = image_ref a
        \<and> (''VERSION'', image_tag (image_ref a)) \<in> set (c_env c)
        \<and> (''IMAGE'', image_ref a) \<in> set (c_env c))
   \<and> (\<forall>repo tg. image_ref a = repo @ CHR '':'' # tg \<and> CHR '':'' \<notin> set tg \<longrightarrow>
          image_tag (image_ref a) = tg)"
  by (simp add: derive_deployment_def image_tag_def last_str_split_append)

theorem deployment_env_version_image_witness:
  "image_ref example_spec = ''finntech/application-name'' @ CHR '':'' # ''123''
   \<and> CHR '':'' \<notin> set ''123''
   \<and> image_tag (image_ref example_spec) = ''123''
   \<and> (''VERSION'', ''123'') \<in> set (c_env (hd (d_containers
         (derive_deployment [] example_spec (make_selector example_spec) (make_labels ''1'' example_spec)))))"
proof -
  have i: "image_ref example_spec = ''finntech/application-name'' @ CHR '':'' # ''123''"
    by (simp add: example_spec_def)
  have n: "CHR '':'' \<notin> set ''123''" by simp
  from deployment_env_version_image
         [of "[]" example_spec "make_selector example_spec" "make_labels ''1'' example_spec"] i n
  have t: "image_tag (image_ref example_spec) = ''123''" by blast
  with i n show ?thesis by (simp add: derive_deployment_def)
qed

end
